theory Spec2Isabelle
  imports Complex_Main
begin

section \<open>HTTP exchanges\<close>

text \<open>
  What awaiting \<open>fetch(url)\<close> and then \<open>response.json()\<close> can give: the fetch
  itself rejects (\<open>NetworkFailure\<close>), or a response arrives with its \<open>ok\<close> flag, its
  status and its body. The body is \<open>None\<close> when it is not JSON (\<open>response.json()\<close>
  rejects) and \<open>Some\<close> of the parsed value otherwise.
\<close>

datatype 'p fetch_result =
    NetworkFailure
  | Response bool nat "'p option"

text \<open>
  The parsed body at the shape the handlers read it: an object with an optional
  \<open>error\<close> member and an optional \<open>data\<close> member, \<open>data\<close> an array when
  present (\<open>{ data: Track[] }\<close> from the gateway, \<open>{ error: string }\<close> from a proxy).
  A member that is absent or \<open>null\<close> is \<open>None\<close>.
\<close>

record 'a payload =
  p_error :: "string option"
  p_data :: "'a list option"

text \<open>What a route handler answers: \<open>NextResponse.json(body, { status })\<close>.\<close>

record 'b http_response =
  http_status :: nat
  http_body :: 'b

section \<open>Search Proxy: the search route's GET\<close>

datatype 'p search_body =
    Passthrough 'p
  | SearchError string

definition search_url :: "(string \<Rightarrow> string) \<Rightarrow> string \<Rightarrow> string" where
  "search_url encodeURIComponent query =
     ''https://api.deezer.com/search?q='' @ encodeURIComponent query @ ''&limit=10''"

text \<open>
  \<open>search_GET\<close> takes the host's \<open>encodeURIComponent\<close>, the upstream (what a fetch
  of a URL gives) and the value of \<open>searchParams.get('q')\<close> (\<open>None\<close> for \<open>null\<close>).
  It returns the URLs it fetched, in order, and its response. Every failure after the
  query check is thrown inside the \<open>try\<close> and answered by the \<open>catch\<close> with status 500.
\<close>

definition search_GET ::
  "(string \<Rightarrow> string) \<Rightarrow> (string \<Rightarrow> 'p fetch_result) \<Rightarrow> string option
     \<Rightarrow> string list \<times> 'p search_body http_response" where
  "search_GET encodeURIComponent upstream q =
     (case q of
        None \<Rightarrow>
          ([], \<lparr>http_status = 400, http_body = SearchError ''Query parameter is required''\<rparr>)
      | Some query \<Rightarrow>
          if query = [] then
            ([], \<lparr>http_status = 400, http_body = SearchError ''Query parameter is required''\<rparr>)
          else
            let url = search_url encodeURIComponent query;
                failed = \<lparr>http_status = 500,
                          http_body = SearchError ''Failed to search for music''\<rparr>
            in (case upstream url of
                  NetworkFailure \<Rightarrow> ([url], failed)
                | Response ok st b \<Rightarrow>
                    if \<not> ok then ([url], failed)
                    else (case b of
                            None \<Rightarrow> ([url], failed)
                          | Some data \<Rightarrow>
                              ([url], \<lparr>http_status = 200, http_body = Passthrough data\<rparr>))))"

section \<open>Discovery Proxy: the random route's GET\<close>

definition MOOD_QUERIES :: "string list" where
  "MOOD_QUERIES =
     [''happy upbeat songs'',
      ''chill relaxing music'',
      ''energetic workout songs'',
      ''feel good vibes'',
      ''motivational music'',
      ''peaceful ambient'',
      ''uplifting pop songs'',
      ''smooth jazz'',
      ''indie feel good'',
      ''classic rock hits'']"

text \<open>
  \<open>Math.floor(Math.random() * n)\<close>, for the value \<open>r\<close> that \<open>Math.random()\<close>
  returned. The product is the host's: \<open>fmul\<close> is the multiplication of doubles,
  rounding included, taken as it is. Doubles and array lengths are real numbers, and
  \<open>Math.floor\<close> of a finite double is its floor.
\<close>

definition random_index :: "(real \<Rightarrow> real \<Rightarrow> real) \<Rightarrow> real \<Rightarrow> nat \<Rightarrow> nat" where
  "random_index fmul r n = nat \<lfloor>fmul r (real n)\<rfloor>"

datatype 'a random_body =
    Data "'a list"
  | RandomError string

definition random_url :: "(string \<Rightarrow> string) \<Rightarrow> string \<Rightarrow> string" where
  "random_url encodeURIComponent randomQuery =
     ''https://api.deezer.com/search?q='' @ encodeURIComponent randomQuery @ ''&limit=50''"

text \<open>
  \<open>random_GET\<close> takes the host's \<open>encodeURIComponent\<close> and multiplication, and the
  two values \<open>Math.random()\<close> returns, in call order: \<open>r1\<close> picks the mood query,
  \<open>r2\<close> the track. The second is only drawn when the list is not empty. It returns
  the URLs it fetched and its response.
\<close>

definition random_GET ::
  "(string \<Rightarrow> string) \<Rightarrow> (real \<Rightarrow> real \<Rightarrow> real) \<Rightarrow> real \<Rightarrow> real
     \<Rightarrow> (string \<Rightarrow> 'a payload fetch_result)
     \<Rightarrow> string list \<times> 'a random_body http_response" where
  "random_GET encodeURIComponent fmul r1 r2 upstream =
     (let randomQuery = MOOD_QUERIES ! random_index fmul r1 (length MOOD_QUERIES);
          url = random_url encodeURIComponent randomQuery;
          failed = \<lparr>http_status = 500, http_body = RandomError ''Failed to get random music''\<rparr>
      in (case upstream url of
            NetworkFailure \<Rightarrow> ([url], failed)
          | Response ok st b \<Rightarrow>
              if \<not> ok then ([url], failed)
              else (case b of
                      None \<Rightarrow> ([url], failed)
                    | Some data \<Rightarrow>
                        (case p_data data of
                           Some tracks \<Rightarrow>
                             if length tracks > 0 then
                               let randomTrack = tracks ! random_index fmul r2 (length tracks)
                               in ([url], \<lparr>http_status = 200, http_body = Data [randomTrack]\<rparr>)
                             else ([url], \<lparr>http_status = 200, http_body = Data []\<rparr>)
                         | None \<Rightarrow> ([url], \<lparr>http_status = 200, http_body = Data []\<rparr>)))))"

section \<open>Track Fetch Client\<close>

text \<open>
  Errors are values. An error the host raises (\<open>fetch\<close> rejecting, \<open>response.json()\<close>
  rejecting on a body that is not JSON, a \<open>TypeError\<close>) carries a message the engine
  chooses, so a message is either the text the code wrote or the engine's text for a
  host error.
\<close>

datatype host_error = FetchFailed | SyntaxError | TypeError

datatype message = Text string | HostText host_error

datatype js_error = Error message | Host host_error

fun message_of :: "js_error \<Rightarrow> message" where
  "message_of (Error m) = m"
| "message_of (Host h) = HostText h"

definition digit :: "nat \<Rightarrow> char" where
  "digit d = ''0123456789'' ! d"

text \<open>The decimal text of a status code, as a template literal prints a number.\<close>

function show_nat :: "nat \<Rightarrow> string" where
  "show_nat n = (if n < 10 then [digit n] else show_nat (n div 10) @ [digit (n mod 10)])"
  by pat_completeness auto
termination
  by (relation "measure id") auto

declare show_nat.simps [simp del]

record Artist =
  artist_id :: real
  name :: string
  picture_medium :: string

record Album =
  album_id :: real
  album_title :: string
  cover_medium :: string

record TrackInfo =
  track_id :: real
  track_title :: string
  title_short :: string
  track_artist :: Artist
  track_album :: Album
  track_duration :: real
  track_preview :: string
  track_link :: string
  track_rank :: real

text \<open>A string the code tests with \<open>!x\<close> or \<open>x || ...\<close>: absent and empty are falsy.\<close>

definition truthy_str :: "string option \<Rightarrow> bool" where
  "truthy_str x = (case x of None \<Rightarrow> False | Some s \<Rightarrow> s \<noteq> [])"

text \<open>
  \<open>searchMusic\<close> of the client: \<open>fetch\<close> is what a fetch of a URL of this
  application gives. The \<open>catch\<close> logs and rethrows, so every error leaves unchanged.
  The last line is \<open>return data.data || []\<close>.
\<close>

definition searchMusic ::
  "(string \<Rightarrow> string) \<Rightarrow> (string \<Rightarrow> 'a payload fetch_result) \<Rightarrow> string
     \<Rightarrow> js_error + 'a list" where
  "searchMusic encodeURIComponent fetch query =
     (case fetch (''/api/music/search?q='' @ encodeURIComponent query) of
        NetworkFailure \<Rightarrow> Inl (Host FetchFailed)
      | Response ok st b \<Rightarrow>
          if \<not> ok then Inl (Error (Text (''API error: '' @ show_nat st)))
          else (case b of
                  None \<Rightarrow> Inl (Host SyntaxError)
                | Some data \<Rightarrow>
                    if truthy_str (p_error data) then
                      Inl (Error (Text (case p_error data of Some e \<Rightarrow> e | None \<Rightarrow> [])))
                    else (case p_data data of
                            Some tracks \<Rightarrow> Inr tracks
                          | None \<Rightarrow> Inr [])))"

section \<open>The music card's props\<close>

text \<open>
  The props as the component receives them: the agent streams them in, so any member
  can still be absent (\<open>None\<close>) when the component renders.
\<close>

record MusicCardProps =
  card_id :: "real option"
  title :: "string option"
  artist :: "string option"
  album :: "string option"
  duration :: "real option"
  preview :: "string option"
  link :: "string option"
  artistImage :: "string option"
  albumCover :: "string option"
  rank :: "real option"

section \<open>Agent tool layer: the searchMusic tool\<close>

definition card_of :: "TrackInfo \<Rightarrow> MusicCardProps" where
  "card_of track =
     \<lparr>card_id = Some (track_id track),
      title = Some (track_title track),
      artist = Some (name (track_artist track)),
      album = Some (album_title (track_album track)),
      duration = Some (track_duration track),
      preview = Some (track_preview track),
      link = Some (track_link track),
      artistImage = Some (picture_medium (track_artist track)),
      albumCover = Some (cover_medium (track_album track)),
      rank = Some (track_rank track)\<rparr>"

definition no_music_found :: "string \<Rightarrow> string" where
  "no_music_found query = ''No music found for '' @ [CHR 0x22] @ query @ [CHR 0x22]"

text \<open>
  The tool's body, then its \<open>catch\<close>, which throws a new \<open>Error\<close> with the message of
  whatever was thrown.
\<close>

definition searchMusic_tool_body ::
  "(string \<Rightarrow> string) \<Rightarrow> (string \<Rightarrow> TrackInfo payload fetch_result) \<Rightarrow> string
     \<Rightarrow> js_error + MusicCardProps" where
  "searchMusic_tool_body encodeURIComponent fetch query =
     (if query = [] then Inl (Error (Text ''Invalid search query provided''))
      else (case searchMusic encodeURIComponent fetch query of
              Inl e \<Rightarrow> Inl e
            | Inr tracks \<Rightarrow>
                (case tracks of
                   [] \<Rightarrow> Inl (Error (Text (no_music_found query)))
                 | track # rest \<Rightarrow> Inr (card_of track))))"

definition searchMusic_tool ::
  "(string \<Rightarrow> string) \<Rightarrow> (string \<Rightarrow> TrackInfo payload fetch_result) \<Rightarrow> string
     \<Rightarrow> js_error + MusicCardProps" where
  "searchMusic_tool encodeURIComponent fetch query =
     (case searchMusic_tool_body encodeURIComponent fetch query of
        Inl e \<Rightarrow> Inl (Error (message_of e))
      | Inr result \<Rightarrow> Inr result)"

section \<open>JavaScript numbers\<close>

text \<open>
  A \<open>number\<close> is \<open>NaN\<close>, an infinity or a finite value. Finite values are real
  numbers here: the rounding of double arithmetic, overflow to an infinity and the sign
  of zero are not modelled (a division of a non-zero number by zero takes the zero as
  \<open>+0\<close>).
\<close>

datatype jsnum = NaN | NegInf | Fin real | PosInf

fun is_finite :: "jsnum \<Rightarrow> bool" where
  "is_finite (Fin a) = True"
| "is_finite _ = False"

text \<open>\<open>a < b\<close> and \<open>a <= b\<close>: false as soon as one side is \<open>NaN\<close>.\<close>

fun jlt :: "jsnum \<Rightarrow> jsnum \<Rightarrow> bool" where
  "jlt (Fin a) (Fin b) = (a < b)"
| "jlt NegInf (Fin b) = True"
| "jlt NegInf PosInf = True"
| "jlt (Fin a) PosInf = True"
| "jlt _ _ = False"

fun jle :: "jsnum \<Rightarrow> jsnum \<Rightarrow> bool" where
  "jle NaN _ = False"
| "jle _ NaN = False"
| "jle a b = (a = b \<or> jlt a b)"

text \<open>A number in a condition or on the left of \<open>||\<close>: \<open>NaN\<close> and zero are falsy.\<close>

fun truthy_num :: "jsnum \<Rightarrow> bool" where
  "truthy_num NaN = False"
| "truthy_num (Fin a) = (a \<noteq> 0)"
| "truthy_num _ = True"

fun jdiv :: "jsnum \<Rightarrow> jsnum \<Rightarrow> jsnum" where
  "jdiv NaN _ = NaN"
| "jdiv _ NaN = NaN"
| "jdiv (Fin a) (Fin b) =
     (if b = 0 then (if a = 0 then NaN else if 0 < a then PosInf else NegInf)
      else Fin (a / b))"
| "jdiv (Fin a) _ = Fin 0"
| "jdiv PosInf (Fin b) = (if b < 0 then NegInf else PosInf)"
| "jdiv NegInf (Fin b) = (if b < 0 then PosInf else NegInf)"
| "jdiv _ _ = NaN"

fun jmul :: "jsnum \<Rightarrow> jsnum \<Rightarrow> jsnum" where
  "jmul NaN _ = NaN"
| "jmul _ NaN = NaN"
| "jmul (Fin a) (Fin b) = Fin (a * b)"
| "jmul (Fin a) PosInf = (if a = 0 then NaN else if 0 < a then PosInf else NegInf)"
| "jmul (Fin a) NegInf = (if a = 0 then NaN else if 0 < a then NegInf else PosInf)"
| "jmul PosInf (Fin b) = (if b = 0 then NaN else if 0 < b then PosInf else NegInf)"
| "jmul NegInf (Fin b) = (if b = 0 then NaN else if 0 < b then NegInf else PosInf)"
| "jmul PosInf PosInf = PosInf"
| "jmul NegInf NegInf = PosInf"
| "jmul _ _ = NegInf"

fun Math_max :: "jsnum \<Rightarrow> jsnum \<Rightarrow> jsnum" where
  "Math_max NaN _ = NaN"
| "Math_max _ NaN = NaN"
| "Math_max a b = (if jlt a b then b else a)"

fun Math_min :: "jsnum \<Rightarrow> jsnum \<Rightarrow> jsnum" where
  "Math_min NaN _ = NaN"
| "Math_min _ NaN = NaN"
| "Math_min a b = (if jlt b a then b else a)"

section \<open>Preview Player: the state of MusicCardCore\<close>

text \<open>
  An \<open>Audio\<close> object as the component uses it: the URL it was constructed with, its
  \<open>currentTime\<close>, and how often \<open>play()\<close> and \<open>pause()\<close> were called on it.
\<close>

record audio_el =
  src :: string
  el_currentTime :: jsnum
  play_calls :: nat
  pause_calls :: nat

text \<open>
  \<open>togglePlay\<close> is \<open>async\<close>: it runs up to its \<open>await\<close> of \<open>play()\<close> and the rest
  runs when the promise settles. The rest is one of two continuations.
\<close>

datatype cont = AfterFirstPlay | AfterResume

text \<open>
  The five \<open>useState\<close> cells, and around them: \<open>audios\<close>, every \<open>Audio\<close> object
  constructed so far (the cell \<open>audio\<close> holds an index into it, \<open>None\<close> for \<open>null\<close>);
  \<open>pending\<close>, the continuations of \<open>play()\<close> promises not yet settled, oldest first;
  \<open>unhandled\<close>, the errors that left a handler uncaught.
\<close>

record player =
  isPlaying :: bool
  audio :: "nat option"
  currentTime :: jsnum
  audioDuration :: jsnum
  isLoading :: bool
  audios :: "audio_el list"
  pending :: "cont list"
  unhandled :: "host_error list"

definition init_player :: player where
  "init_player =
     \<lparr>isPlaying = False, audio = None, currentTime = Fin 0, audioDuration = Fin 30,
      isLoading = False, audios = [], pending = [], unhandled = []\<rparr>"

definition on_audio :: "nat \<Rightarrow> (audio_el \<Rightarrow> audio_el) \<Rightarrow> player \<Rightarrow> player" where
  "on_audio h f s = s\<lparr>audios := (audios s)[h := f (audios s ! h)]\<rparr>"

text \<open>\<open>togglePlay\<close> up to its \<open>await\<close> (the pause branch has none).\<close>

definition togglePlay :: "string \<Rightarrow> player \<Rightarrow> player" where
  "togglePlay preview_url s =
     (case audio s of
        None \<Rightarrow>
          let a = \<lparr>src = preview_url, el_currentTime = Fin 0, play_calls = 1, pause_calls = 0\<rparr>
          in s\<lparr>isLoading := True,
               audios := audios s @ [a],
               audio := Some (length (audios s)),
               pending := pending s @ [AfterFirstPlay]\<rparr>
      | Some h \<Rightarrow>
          if isPlaying s then
            (on_audio h (\<lambda>a. a\<lparr>pause_calls := Suc (pause_calls a)\<rparr>) s)\<lparr>isPlaying := False\<rparr>
          else
            (on_audio h (\<lambda>a. a\<lparr>play_calls := Suc (play_calls a)\<rparr>) s)
              \<lparr>pending := pending s @ [AfterResume]\<rparr>)"

text \<open>
  The oldest pending \<open>play()\<close> promise settles (\<open>ok\<close>: it resolved) and the rest of
  that \<open>togglePlay\<close> call runs: \<open>setIsPlaying(true)\<close>, or the \<open>catch\<close> block.
\<close>

definition settle :: "bool \<Rightarrow> player \<Rightarrow> player" where
  "settle ok s =
     (case pending s of
        [] \<Rightarrow> s
      | c # cs \<Rightarrow>
          if ok then s\<lparr>pending := cs, isPlaying := True\<rparr>
          else (case c of
                  AfterFirstPlay \<Rightarrow> s\<lparr>pending := cs, isLoading := False\<rparr>
                | AfterResume \<Rightarrow> s\<lparr>pending := cs\<rparr>))"

text \<open>
  \<open>handleSeek\<close>, for \<open>t = parseFloat(e.target.value)\<close>. Assigning a number that is
  not finite to \<open>audio.currentTime\<close> makes the host throw a \<open>TypeError\<close>: the state
  update before it stands, the element is untouched and nothing catches the error.
\<close>

definition handleSeek :: "jsnum \<Rightarrow> player \<Rightarrow> player" where
  "handleSeek t s =
     (let s' = s\<lparr>currentTime := t\<rparr>
      in (case audio s of
            None \<Rightarrow> s'
          | Some h \<Rightarrow>
              if is_finite t then on_audio h (\<lambda>a. a\<lparr>el_currentTime := t\<rparr>) s'
              else s'\<lparr>unhandled := unhandled s' @ [TypeError]\<rparr>))"

text \<open>\<open>pct\<close>, the width of the progress fill in percent.\<close>

definition pct :: "player \<Rightarrow> jsnum" where
  "pct s = Math_min (Fin 100) (Math_max (Fin 0)
             (jmul (jdiv (currentTime s) (audioDuration s)) (Fin 100)))"

text \<open>
  What can happen to a mounted card. \<open>Click\<close>: the play button, \<open>disabled\<close> while
  \<open>isLoading\<close>. \<open>Settle ok\<close>: the oldest \<open>play()\<close> promise settles. \<open>SeekInput t\<close>:
  a change of the range input whose value parses to \<open>t\<close>; the input is \<open>disabled\<close>
  while \<open>isLoading || !audio\<close>. \<open>Tick\<close>: the 100 ms interval, which exists while
  \<open>isPlaying && audio\<close>. \<open>HostTime t\<close>: the host moves the element's playhead to
  \<open>t\<close>. \<open>Ended\<close>, \<open>LoadedMetadata d\<close> (with \<open>a.duration\<close> reading \<open>d\<close>) and
  \<open>LoadError\<close>: the three listeners, which exist once the element does.
\<close>

datatype event =
    Click
  | Settle bool
  | SeekInput jsnum
  | Tick
  | HostTime jsnum
  | Ended
  | LoadedMetadata jsnum
  | LoadError

fun step :: "string \<Rightarrow> event \<Rightarrow> player \<Rightarrow> player" where
  "step p Click s = (if isLoading s then s else togglePlay p s)"
| "step p (Settle ok) s = settle ok s"
| "step p (SeekInput t) s = (if isLoading s \<or> audio s = None then s else handleSeek t s)"
| "step p Tick s =
     (case audio s of
        None \<Rightarrow> s
      | Some h \<Rightarrow>
          if isPlaying s then s\<lparr>currentTime := el_currentTime (audios s ! h)\<rparr> else s)"
| "step p (HostTime t) s =
     (case audio s of
        None \<Rightarrow> s
      | Some h \<Rightarrow> on_audio h (\<lambda>a. a\<lparr>el_currentTime := t\<rparr>) s)"
| "step p Ended s =
     (case audio s of
        None \<Rightarrow> s
      | Some h \<Rightarrow> s\<lparr>isPlaying := False, currentTime := Fin 0\<rparr>)"
| "step p (LoadedMetadata d) s =
     (case audio s of
        None \<Rightarrow> s
      | Some h \<Rightarrow> s\<lparr>audioDuration := (if truthy_num d then d else Fin 30),
                       isLoading := False\<rparr>)"
| "step p LoadError s =
     (case audio s of
        None \<Rightarrow> s
      | Some h \<Rightarrow> s\<lparr>isLoading := False\<rparr>)"

fun run :: "string \<Rightarrow> player \<Rightarrow> event list \<Rightarrow> player" where
  "run p s [] = s"
| "run p s (e # es) = run p (step p e s) es"

section \<open>What the card components render\<close>

record card_view =
  shown_title :: string
  shown_artist :: string
  shown_album :: "string option"
  cover :: string
  progress :: jsnum
  slider_max :: jsnum
  slider_value :: jsnum
  slider_disabled :: bool
  button_disabled :: bool
  button_label :: string

datatype rendered = Null | Skeleton | Card card_view

text \<open>\<open>x || d\<close> for a string \<open>x\<close> that may be absent.\<close>

definition str_or :: "string option \<Rightarrow> string \<Rightarrow> string" where
  "str_or x d = (case x of None \<Rightarrow> d | Some s \<Rightarrow> if s = [] then d else s)"

definition MusicCardCore :: "MusicCardProps \<Rightarrow> player \<Rightarrow> rendered" where
  "MusicCardCore props s =
     (if \<not> truthy_str (title props) \<or> \<not> truthy_str (artist props)
         \<or> \<not> truthy_str (preview props)
      then Null
      else Card
        \<lparr>shown_title = str_or (title props) [],
         shown_artist = str_or (artist props) [],
         shown_album = album props,
         cover = str_or (albumCover props) ''/default-album.png'',
         progress = pct s,
         slider_max = audioDuration s,
         slider_value = currentTime s,
         slider_disabled = (isLoading s \<or> audio s = None),
         button_disabled = isLoading s,
         button_label =
           (if isLoading s then ''Loading...'' else if isPlaying s then ''Pause'' else ''Play'')\<rparr>)"

text \<open>
  The other file's \<open>MusicCard\<close>, exported as it is: the same guard, a slider that is
  never disabled and a label without the loading case.
\<close>

definition MusicCard_v1 :: "MusicCardProps \<Rightarrow> player \<Rightarrow> rendered" where
  "MusicCard_v1 props s =
     (if \<not> truthy_str (title props) \<or> \<not> truthy_str (artist props)
         \<or> \<not> truthy_str (preview props)
      then Null
      else Card
        \<lparr>shown_title = str_or (title props) [],
         shown_artist = str_or (artist props) [],
         shown_album = album props,
         cover = str_or (albumCover props) ''/default-album.png'',
         progress = pct s,
         slider_max = audioDuration s,
         slider_value = currentTime s,
         slider_disabled = False,
         button_disabled = isLoading s,
         button_label = (if isPlaying s then ''Pause'' else ''Play'')\<rparr>)"

text \<open>
  \<open>MusicCardWithLoadingState\<close>, which its file exports as \<open>MusicCard\<close>. Its two
  state cells are what the render reads; its effects (which set them from the thread's
  generation stage, after a 300 ms timer) are not modelled.
\<close>

record loading_state =
  showSkeleton :: bool
  hasBeenInitialized :: bool

definition isComponentComplete :: "MusicCardProps \<Rightarrow> bool" where
  "isComponentComplete props =
     (truthy_str (title props) \<and> truthy_str (artist props) \<and> truthy_str (preview props))"

definition MusicCardWithLoadingState ::
  "loading_state \<Rightarrow> MusicCardProps \<Rightarrow> player \<Rightarrow> rendered" where
  "MusicCardWithLoadingState w props s =
     (if showSkeleton w \<or> \<not> isComponentComplete props then Skeleton
      else MusicCardCore props s)"

section \<open>Predicates on players and event sequences\<close>

text \<open>
  The events the audio element itself raises or undergoes while a first \<open>play()\<close> is
  pending or has failed: no click, no seek, no tick, no end of playback.
\<close>

fun element_event :: "event \<Rightarrow> bool" where
  "element_event (LoadedMetadata d) = True"
| "element_event LoadError = True"
| "element_event (HostTime t) = True"
| "element_event _ = False"

text \<open>The cell \<open>audio\<close> and the constructed objects agree: none, or the one at index 0.\<close>

definition one_audio :: "player \<Rightarrow> bool" where
  "one_audio s =
     (case audio s of
        None \<Rightarrow> audios s = []
      | Some h \<Rightarrow> h = 0 \<and> length (audios s) = 1)"

text \<open>
  What a media element reports as its \<open>duration\<close>: \<open>NaN\<close> while unknown, otherwise a
  length in seconds that is not negative, \<open>+Infinity\<close> for an unbounded stream.
\<close>

definition host_duration :: "jsnum \<Rightarrow> bool" where
  "host_duration d = (d = NaN \<or> jle (Fin 0) d)"

fun host_event :: "event \<Rightarrow> bool" where
  "host_event (LoadedMetadata d) = host_duration d"
| "host_event _ = True"

text \<open>The position bound of the data model: \<open>0 \<le> currentTime \<le> audioDuration\<close>.\<close>

definition pos_ok :: "player \<Rightarrow> bool" where
  "pos_ok s = (jle (Fin 0) (currentTime s) \<and> jle (currentTime s) (audioDuration s))"

text \<open>
  An event whose value keeps within the bound in state \<open>s\<close>: a seek to a value in
  \<open>[0, audioDuration]\<close> (the range input's \<open>min\<close> and \<open>max\<close>), a tick that, while
  the card is playing, samples an element position in \<open>[0, audioDuration]\<close>, a metadata
  report whose resulting duration is not below the current position.
\<close>

fun in_range :: "event \<Rightarrow> player \<Rightarrow> bool" where
  "in_range (SeekInput t) s = (jle (Fin 0) t \<and> jle t (audioDuration s))"
| "in_range Tick s =
     (case audio s of
        None \<Rightarrow> True
      | Some h \<Rightarrow>
          if isPlaying s then
            jle (Fin 0) (el_currentTime (audios s ! h)) \<and>
            jle (el_currentTime (audios s ! h)) (audioDuration s)
          else True)"
| "in_range (LoadedMetadata d) s = jle (currentTime s) (if truthy_num d then d else Fin 30)"
| "in_range _ s = True"

fun runs_in_range :: "string \<Rightarrow> player \<Rightarrow> event list \<Rightarrow> bool" where
  "runs_in_range p s [] = True"
| "runs_in_range p s (e # es) = (in_range e s \<and> runs_in_range p (step p e s) es)"

text \<open>
  A first play request that is still pending, and one that was rejected: in both the
  one element exists, was asked to play once and the card is not playing.
\<close>

definition first_attempt :: "string \<Rightarrow> player \<Rightarrow> bool" where
  "first_attempt p s =
     (audio s = Some 0 \<and> length (audios s) = 1 \<and> src (audios s ! 0) = p \<and>
      play_calls (audios s ! 0) = 1 \<and> \<not> isPlaying s \<and> pending s = [AfterFirstPlay] \<and>
      unhandled s = [])"

definition failed_attempt :: "string \<Rightarrow> player \<Rightarrow> bool" where
  "failed_attempt p s =
     (audio s = Some 0 \<and> length (audios s) = 1 \<and> src (audios s ! 0) = p \<and>
      play_calls (audios s ! 0) = 1 \<and> \<not> isPlaying s \<and> \<not> isLoading s \<and> pending s = [] \<and>
      unhandled s = [])"

text \<open>
  Idle with the element in place, as a card is after a failed first attempt or after
  its clip has ended: neither loading nor playing, and no \<open>play()\<close> promise pending.
\<close>

definition idle_with_audio :: "player \<Rightarrow> bool" where
  "idle_with_audio s =
     (audio s \<noteq> None \<and> \<not> isPlaying s \<and> \<not> isLoading s \<and> pending s = [])"

section \<open>Properties of the Search Proxy\<close>

lemma search_GET_one_request:
  "query \<noteq> [] \<Longrightarrow>
     fst (search_GET enc upstream (Some query)) = [search_url enc query]"
  by (simp add: search_GET_def Let_def split: fetch_result.split option.split)

text \<open>
  Claim C2. For every non-empty query string the Search Proxy fetches exactly one
  upstream URL (the gateway's search URL for that query, with limit 10), and when the
  upstream answers with success (an \<open>ok\<close> response whose body is JSON) the proxy answers
  with status 200 and that parsed payload itself.
\<close>

theorem search_proxy_passthrough:
  assumes "query \<noteq> []"
  shows "length (fst (search_GET enc upstream (Some query))) = 1 \<and>
         (upstream (search_url enc query) = Response True st (Some data) \<longrightarrow>
            search_GET enc upstream (Some query) =
              ([search_url enc query], \<lparr>http_status = 200, http_body = Passthrough data\<rparr>))"
proof
  show "length (fst (search_GET enc upstream (Some query))) = 1"
    using assms by (simp add: search_GET_one_request)
next
  show "upstream (search_url enc query) = Response True st (Some data) \<longrightarrow>
          search_GET enc upstream (Some query) =
            ([search_url enc query], \<lparr>http_status = 200, http_body = Passthrough data\<rparr>)"
    using assms by (simp add: search_GET_def)
qed

theorem search_proxy_passthrough_witness:
  "''queen'' \<noteq> [] \<and>
   (\<lambda>u. Response True 200 (Some (7::nat))) (search_url id ''queen'') = Response True 200 (Some 7) \<and>
   length (fst (search_GET id (\<lambda>u. Response True 200 (Some (7::nat))) (Some ''queen''))) = 1 \<and>
   search_GET id (\<lambda>u. Response True 200 (Some (7::nat))) (Some ''queen'') =
     ([''https://api.deezer.com/search?q=queen&limit=10''],
      \<lparr>http_status = 200, http_body = Passthrough 7\<rparr>)"
  using search_proxy_passthrough [of "''queen''" id "\<lambda>u. Response True 200 (Some (7::nat))" 200 7]
  by (simp add: search_url_def)

section \<open>Properties of the Discovery Proxy\<close>

text \<open>
  Where the double product of the first draw and 10 is 7 (as it is for the draw 0.7,
  whose exact product with 10 lies below 7), the mood query is the one at index 7.
\<close>

lemma mood_query_at_7:
  "fmul r1 10 = 7 \<Longrightarrow>
     MOOD_QUERIES ! random_index fmul r1 (length MOOD_QUERIES) = ''smooth jazz''"
  by (simp add: random_index_def MOOD_QUERIES_def)

text \<open>
  Claim C6. Let \<open>m\<close> be the index \<open>Math.floor(Math.random() * 10)\<close> selects among
  the mood queries, let the gateway answer the request for that query with success and
  a result list \<open>tracks\<close> of length N, and let \<open>k\<close> be the index
  \<open>Math.floor(Math.random() * N)\<close> selects. When N is at least 1 and \<open>k < N\<close>, the
  proxy fetches that one URL and answers with status 200 and the one-element list
  holding the element at \<open>k\<close>. When the list is empty, it answers with status 200 and
  the empty list, not with an error.
\<close>

theorem discovery_proxy_selection:
  assumes "nat \<lfloor>fmul r1 (real (length MOOD_QUERIES))\<rfloor> = m"
    and "m < length MOOD_QUERIES"
    and "upstream (random_url enc (MOOD_QUERIES ! m)) = Response True st (Some data)"
    and "p_data data = Some tracks"
    and "nat \<lfloor>fmul r2 (real (length tracks))\<rfloor> = k"
  shows "(tracks \<noteq> [] \<and> k < length tracks \<longrightarrow>
            random_GET enc fmul r1 r2 upstream =
              ([random_url enc (MOOD_QUERIES ! m)],
               \<lparr>http_status = 200, http_body = Data [tracks ! k]\<rparr>)) \<and>
         (tracks = [] \<longrightarrow>
            random_GET enc fmul r1 r2 upstream =
              ([random_url enc (MOOD_QUERIES ! m)],
               \<lparr>http_status = 200, http_body = Data []\<rparr>))"
proof -
  have m: "random_index fmul r1 (length MOOD_QUERIES) = m"
    using assms(1) by (simp add: random_index_def)
  have k: "random_index fmul r2 (length tracks) = k"
    using assms(5) by (simp add: random_index_def)
  show ?thesis
    using assms(3,4) by (simp add: random_GET_def Let_def m k)
qed

theorem discovery_proxy_selection_witness:
  "nat \<lfloor>(0::real) * real (length MOOD_QUERIES)\<rfloor> = 0 \<and> 0 < length MOOD_QUERIES \<and>
   nat \<lfloor>(1/2::real) * real (length [10, 20, 30::nat])\<rfloor> = 1 \<and>
   1 < length [10, 20, 30::nat] \<and>
   random_GET id (*) 0 (1/2)
     (\<lambda>u. Response True 200 (Some \<lparr>p_error = None, p_data = Some [10, 20, 30::nat]\<rparr>)) =
     ([''https://api.deezer.com/search?q=happy upbeat songs&limit=50''],
      \<lparr>http_status = 200, http_body = Data [20]\<rparr>)"
  using discovery_proxy_selection [of "(*)" 0 0
      "\<lambda>u. Response True 200 (Some \<lparr>p_error = None, p_data = Some [10, 20, 30::nat]\<rparr>)"
      id 200 "\<lparr>p_error = None, p_data = Some [10, 20, 30::nat]\<rparr>" "[10, 20, 30]" "1/2" 1]
  by (simp add: MOOD_QUERIES_def random_url_def)

section \<open>Properties of the Track Fetch Client and the tool layer\<close>

text \<open>
  Claim C1, as stated, fails: for a query whose result list is empty the client's
  \<open>searchMusic\<close> returns the empty list (\<open>return data.data || []\<close>); it raises
  nothing.
\<close>

theorem searchMusic_empty_counterexample:
  "searchMusic id (\<lambda>u. Response True 200 (Some \<lparr>p_error = None, p_data = Some []\<rparr>)) ''zzz''
     = (Inr [] :: js_error + nat list)"
  by (simp add: searchMusic_def truthy_str_def)

text \<open>
  Claim C1, amended. For every query whose search succeeds with an empty (or absent)
  result list, the client's \<open>searchMusic\<close> returns the empty list; the error whose
  message names the query is raised one layer up, by the agent tool \<open>searchMusic\<close>,
  which for a non-empty query raises \<open>No music found for "query"\<close>.
\<close>

theorem empty_result_client_and_tool:
  assumes "fetch (''/api/music/search?q='' @ enc query) = Response True st (Some data)"
    and "\<not> truthy_str (p_error data)"
    and "p_data data = Some [] \<or> p_data data = None"
  shows "searchMusic enc fetch query = Inr [] \<and>
         (query \<noteq> [] \<longrightarrow>
            searchMusic_tool enc fetch query = Inl (Error (Text (no_music_found query))))"
proof -
  have c: "searchMusic enc fetch query = Inr []"
    using assms by (auto simp: searchMusic_def)
  then show ?thesis
    by (simp add: searchMusic_tool_def searchMusic_tool_body_def)
qed

theorem empty_result_client_and_tool_witness:
  "searchMusic id (\<lambda>u. Response True 200 (Some \<lparr>p_error = None, p_data = Some []\<rparr>)) ''zzz''
     = (Inr [] :: js_error + TrackInfo list) \<and>
   searchMusic_tool id (\<lambda>u. Response True 200 (Some \<lparr>p_error = None, p_data = Some []\<rparr>)) ''zzz''
     = Inl (Error (Text (''No music found for '' @ [CHR 0x22] @ ''zzz'' @ [CHR 0x22])))"
  using empty_result_client_and_tool [of
      "\<lambda>u. Response True 200 (Some \<lparr>p_error = None, p_data = Some []\<rparr>)" id "''zzz''" 200
      "\<lparr>p_error = None, p_data = Some []\<rparr>"]
  by (simp add: truthy_str_def no_music_found_def)

section \<open>Properties of the rendered card\<close>

text \<open>
  Claim C4, as stated, fails for the component that the later file exports as
  \<open>MusicCard\<close>: with the title absent, \<open>MusicCardWithLoadingState\<close> renders the
  skeleton, here on its first render (\<open>showSkeleton\<close> starts \<open>true\<close>) and, by the
  theorem below, whatever its own state.
\<close>

theorem wrapper_renders_skeleton_counterexample:
  "MusicCardWithLoadingState \<lparr>showSkeleton = True, hasBeenInitialized = False\<rparr>
     \<lparr>card_id = Some 3135556, title = None, artist = Some ''Daft Punk'',
      album = Some ''Discovery'', duration = Some 224,
      preview = Some ''https://cdn.example/p.mp3'', link = Some ''https://example/t'',
      artistImage = None, albumCover = None, rank = None\<rparr>
     init_player \<noteq> Null"
  by (simp add: MusicCardWithLoadingState_def isComponentComplete_def truthy_str_def)

text \<open>
  Claim C4, amended. For every props record in which the title, the artist or the
  preview URL is absent, \<open>MusicCardCore\<close> and the other file's \<open>MusicCard\<close> render
  nothing, and the wrapper \<open>MusicCardWithLoadingState\<close> renders the loading skeleton
  (it never hands such props to \<open>MusicCardCore\<close>).
\<close>

theorem incomplete_props_rendering:
  assumes "title props = None \<or> artist props = None \<or> preview props = None"
  shows "MusicCardCore props s = Null \<and> MusicCard_v1 props s = Null \<and>
         MusicCardWithLoadingState w props s = Skeleton"
  using assms
  by (auto simp: MusicCardCore_def MusicCard_v1_def MusicCardWithLoadingState_def
        isComponentComplete_def truthy_str_def)

theorem incomplete_props_rendering_witness:
  "artist
     \<lparr>card_id = Some 1, title = Some ''One More Time'', artist = None, album = None,
      duration = None, preview = None, link = None, artistImage = None, albumCover = None,
      rank = None\<rparr> = None \<and>
   MusicCardCore
     \<lparr>card_id = Some 1, title = Some ''One More Time'', artist = None, album = None,
      duration = None, preview = None, link = None, artistImage = None, albumCover = None,
      rank = None\<rparr> init_player = Null \<and>
   MusicCard_v1
     \<lparr>card_id = Some 1, title = Some ''One More Time'', artist = None, album = None,
      duration = None, preview = None, link = None, artistImage = None, albumCover = None,
      rank = None\<rparr> init_player = Null \<and>
   MusicCardWithLoadingState \<lparr>showSkeleton = False, hasBeenInitialized = True\<rparr>
     \<lparr>card_id = Some 1, title = Some ''One More Time'', artist = None, album = None,
      duration = None, preview = None, link = None, artistImage = None, albumCover = None,
      rank = None\<rparr> init_player = Skeleton"
  using incomplete_props_rendering [of
      "\<lparr>card_id = Some 1, title = Some ''One More Time'', artist = None, album = None,
        duration = None, preview = None, link = None, artistImage = None, albumCover = None,
        rank = None\<rparr>" init_player "\<lparr>showSkeleton = False, hasBeenInitialized = True\<rparr>"]
  by simp

section \<open>Properties of the Preview Player\<close>

subsection \<open>One audio element per card\<close>

lemma run_append: "run p s (es @ fs) = run p (run p s es) fs"
  by (induction es arbitrary: s) simp_all

lemma one_audio_init: "one_audio init_player"
  by (simp add: one_audio_def init_player_def)

lemma one_audio_step: "one_audio s \<Longrightarrow> one_audio (step p e s)"
  by (cases e)
     (auto simp: one_audio_def togglePlay_def settle_def handleSeek_def on_audio_def Let_def
           split: option.splits list.splits cont.splits if_splits)

text \<open>
  Whatever happens to a card, it has constructed at most one \<open>Audio\<close> object, and
  the cell \<open>audio\<close> never holds an index outside \<open>audios\<close>.
\<close>

lemma one_audio_run: "one_audio (run p init_player es)"
proof -
  have "one_audio s \<Longrightarrow> one_audio (run p s es)" for s
    by (induction es arbitrary: s) (simp_all add: one_audio_step)
  then show ?thesis by (simp add: one_audio_init)
qed

subsection \<open>The duration is never zero\<close>

lemma audioDuration_step_nonzero:
  "audioDuration s \<noteq> Fin 0 \<and> audioDuration s \<noteq> NaN \<Longrightarrow>
   audioDuration (step p e s) \<noteq> Fin 0 \<and> audioDuration (step p e s) \<noteq> NaN"
  by (cases e)
     (auto simp: togglePlay_def settle_def handleSeek_def on_audio_def Let_def
           split: option.splits list.splits cont.splits if_splits elim: truthy_num.elims)

lemma audioDuration_run_nonzero:
  "audioDuration s \<noteq> Fin 0 \<and> audioDuration s \<noteq> NaN \<Longrightarrow>
   audioDuration (run p s es) \<noteq> Fin 0 \<and> audioDuration (run p s es) \<noteq> NaN"
proof (induction es arbitrary: s)
  case Nil
  then show ?case by simp
next
  case (Cons e es)
  show ?case using Cons.IH [OF audioDuration_step_nonzero [OF Cons.prems]] by simp
qed

text \<open>The metadata listener: \<open>setAudioDuration(a.duration || 30)\<close>.\<close>

lemma loadedmetadata_duration:
  "audio s \<noteq> None \<Longrightarrow>
   audioDuration (step p (LoadedMetadata d) s) = (if d = NaN \<or> d = Fin 0 then Fin 30 else d)"
  by (cases d) auto

lemma truthy_host_positive:
  "host_duration d \<Longrightarrow> truthy_num d \<Longrightarrow> jlt (Fin 0) d"
  by (cases d) (auto simp: host_duration_def)

lemma audioDuration_step_positive:
  "jlt (Fin 0) (audioDuration s) \<Longrightarrow> host_event e \<Longrightarrow> jlt (Fin 0) (audioDuration (step p e s))"
  by (cases e)
     (auto simp: togglePlay_def settle_def handleSeek_def on_audio_def Let_def truthy_host_positive
           split: option.splits list.splits cont.splits if_splits)

lemma audioDuration_run_positive:
  "jlt (Fin 0) (audioDuration s) \<Longrightarrow> list_all host_event es \<Longrightarrow>
   jlt (Fin 0) (audioDuration (run p s es))"
  by (induction es arbitrary: s) (simp_all add: audioDuration_step_positive)

text \<open>
  Claim C10. In every state a card reaches from its initial state, by any sequence of
  events, \<open>audioDuration\<close> is neither zero nor \<open>NaN\<close>, so the quotient
  \<open>currentTime / audioDuration\<close> of \<open>pct\<close> never has a zero divisor: the cell
  starts at 30 and the metadata listener stores 30 for a falsy report. When, as media
  elements do, no metadata report carries a negative duration, \<open>audioDuration\<close> is
  strictly positive in every such state.
\<close>

theorem audioDuration_positive:
  "audioDuration init_player = Fin 30 \<and>
   audioDuration (run p init_player es) \<noteq> Fin 0 \<and>
   audioDuration (run p init_player es) \<noteq> NaN \<and>
   (list_all host_event es \<longrightarrow> jlt (Fin 0) (audioDuration (run p init_player es)))"
proof -
  have "audioDuration init_player \<noteq> Fin 0 \<and> audioDuration init_player \<noteq> NaN"
    by (simp add: init_player_def)
  from audioDuration_run_nonzero [OF this]
  have a: "audioDuration (run p init_player es) \<noteq> Fin 0 \<and>
           audioDuration (run p init_player es) \<noteq> NaN" .
  have "jlt (Fin 0) (audioDuration init_player)" by (simp add: init_player_def)
  from audioDuration_run_positive [OF this]
  have "list_all host_event es \<longrightarrow> jlt (Fin 0) (audioDuration (run p init_player es))"
    by blast
  with a show ?thesis by (simp add: init_player_def)
qed

theorem audioDuration_positive_witness:
  "list_all host_event [Click, LoadedMetadata NaN, Settle True, LoadedMetadata (Fin 0),
      LoadedMetadata (Fin 29.5)] \<and>
   audioDuration (run ''u'' init_player [Click, LoadedMetadata NaN, Settle True,
      LoadedMetadata (Fin 0), LoadedMetadata (Fin 29.5)]) = Fin 29.5 \<and>
   jlt (Fin 0) (audioDuration (run ''u'' init_player [Click, LoadedMetadata NaN, Settle True,
      LoadedMetadata (Fin 0), LoadedMetadata (Fin 29.5)]))"
  using audioDuration_positive [of "''u''" "[Click, LoadedMetadata NaN, Settle True,
      LoadedMetadata (Fin 0), LoadedMetadata (Fin 29.5)]"]
  by (simp add: init_player_def togglePlay_def settle_def host_duration_def)

subsection \<open>The progress fraction after a seek\<close>

lemma handleSeek_times:
  "currentTime (handleSeek t s) = t"
  "audioDuration (handleSeek t s) = audioDuration s"
  by (simp_all add: handleSeek_def on_audio_def Let_def split: option.split)





subsection \<open>The position bound\<close>

text \<open>
  Claim C5, as stated, fails: \<open>handleSeek\<close> stores the value it is given. On a card
  that plays a 30-second clip, a seek with the value 100 leaves \<open>currentTime = 100\<close>
  above \<open>audioDuration = 30\<close>.
\<close>

theorem seek_out_of_range_counterexample:
  "currentTime (run ''u'' init_player
      [Click, LoadedMetadata (Fin 30), Settle True, SeekInput (Fin 100)]) = Fin 100 \<and>
   audioDuration (run ''u'' init_player
      [Click, LoadedMetadata (Fin 30), Settle True, SeekInput (Fin 100)]) = Fin 30 \<and>
   \<not> jle (currentTime (run ''u'' init_player
      [Click, LoadedMetadata (Fin 30), Settle True, SeekInput (Fin 100)]))
     (audioDuration (run ''u'' init_player
      [Click, LoadedMetadata (Fin 30), Settle True, SeekInput (Fin 100)]))"
  by (simp add: init_player_def togglePlay_def settle_def handleSeek_def on_audio_def)

lemma jle_trans: "jle a b \<Longrightarrow> jle b c \<Longrightarrow> jle a c"
  by (cases a; cases b; cases c) auto

lemma togglePlay_times:
  "currentTime (togglePlay p s) = currentTime s"
  "audioDuration (togglePlay p s) = audioDuration s"
  by (simp_all add: togglePlay_def on_audio_def Let_def split: option.split)

lemma settle_times:
  "currentTime (settle ok s) = currentTime s"
  "audioDuration (settle ok s) = audioDuration s"
  by (simp_all add: settle_def split: list.split cont.split)

lemma pos_ok_step:
  assumes "pos_ok s" "in_range e s"
  shows "pos_ok (step p e s)"
proof (cases e)
  case Click
  then show ?thesis using assms(1) by (simp add: pos_ok_def togglePlay_times)
next
  case (Settle ok)
  then show ?thesis using assms(1) by (simp add: pos_ok_def settle_times)
next
  case (SeekInput t)
  then show ?thesis using assms by (auto simp: pos_ok_def handleSeek_times)
next
  case Tick
  then show ?thesis using assms by (auto simp: pos_ok_def split: option.split)
next
  case (HostTime t)
  then show ?thesis using assms(1) by (auto simp: pos_ok_def on_audio_def split: option.split)
next
  case Ended
  have "jle (Fin 0) (audioDuration s)"
    using assms(1) jle_trans [of "Fin 0" "currentTime s" "audioDuration s"]
    by (simp add: pos_ok_def)
  then show ?thesis using Ended assms(1) by (auto simp: pos_ok_def split: option.split)
next
  case (LoadedMetadata d)
  then show ?thesis using assms by (auto simp: pos_ok_def split: option.split)
next
  case LoadError
  then show ?thesis using assms(1) by (auto simp: pos_ok_def split: option.split)
qed

lemma pos_ok_run:
  "pos_ok s \<Longrightarrow> runs_in_range p s es \<Longrightarrow> pos_ok (run p s es)"
  by (induction es arbitrary: s) (simp_all add: pos_ok_step)

text \<open>
  Claim C5, amended. \<open>0 \<le> currentTime \<le> audioDuration\<close> holds in the initial state
  and in every state reached by events that are in range where they occur: play,
  pause and the natural end always are; a seek is when its value lies in
  \<open>[0, audioDuration]\<close>; a progress tick is when the element position it samples lies
  in \<open>[0, audioDuration]\<close>; a metadata report is when the duration it leaves is not
  below the current position.
\<close>

theorem position_within_duration:
  assumes "runs_in_range p init_player es"
  shows "pos_ok (run p init_player es)"
proof (rule pos_ok_run)
  show "pos_ok init_player" by (simp add: pos_ok_def init_player_def)
  show "runs_in_range p init_player es" by (rule assms)
qed

theorem position_within_duration_witness:
  "runs_in_range ''u'' init_player
     [Click, LoadedMetadata (Fin 30), Settle True, HostTime (Fin 2), Tick, SeekInput (Fin 12),
      Click, Ended] \<and>
   pos_ok (run ''u'' init_player
     [Click, LoadedMetadata (Fin 30), Settle True, HostTime (Fin 2), Tick, SeekInput (Fin 12),
      Click, Ended])"
proof -
  have r: "runs_in_range ''u'' init_player
     [Click, LoadedMetadata (Fin 30), Settle True, HostTime (Fin 2), Tick, SeekInput (Fin 12),
      Click, Ended]"
    by (simp add: init_player_def togglePlay_def settle_def handleSeek_def on_audio_def)
  show ?thesis using r position_within_duration [OF r] by simp
qed

subsection \<open>A first play request that fails\<close>

lemma togglePlay_not_playing: "\<not> isPlaying s \<Longrightarrow> \<not> isPlaying (togglePlay p s)"
  by (simp add: togglePlay_def on_audio_def Let_def split: option.split)

lemma settle_False_not_playing: "\<not> isPlaying s \<Longrightarrow> \<not> isPlaying (settle False s)"
  by (simp add: settle_def split: list.split cont.split)

lemma handleSeek_isPlaying: "isPlaying (handleSeek t s) = isPlaying s"
  by (simp add: handleSeek_def on_audio_def Let_def split: option.split)

text \<open>Only a \<open>play()\<close> promise that resolves makes a card playing.\<close>

lemma step_not_playing:
  assumes "\<not> isPlaying s" "e \<noteq> Settle True"
  shows "\<not> isPlaying (step p e s)"
proof (cases e)
  case Click
  then show ?thesis using assms(1) by (simp add: togglePlay_not_playing)
next
  case (Settle ok)
  then have "ok = False" using assms(2) by simp
  then show ?thesis using Settle assms(1) by (simp add: settle_False_not_playing)
next
  case (SeekInput t)
  then show ?thesis using assms(1) by (simp add: handleSeek_isPlaying)
next
  case Tick
  then show ?thesis using assms(1) by (simp split: option.split)
next
  case (HostTime t)
  then show ?thesis using assms(1) by (simp add: on_audio_def split: option.split)
next
  case Ended
  then show ?thesis using assms(1) by (simp split: option.split)
next
  case (LoadedMetadata d)
  then show ?thesis using assms(1) by (simp split: option.split)
next
  case LoadError
  then show ?thesis using assms(1) by (simp split: option.split)
qed

lemma run_not_playing:
  "\<not> isPlaying s \<Longrightarrow> Settle True \<notin> set es \<Longrightarrow> \<not> isPlaying (run p s es)"
proof (induction es arbitrary: s)
  case Nil
  then show ?case by simp
next
  case (Cons e es)
  have "e \<noteq> Settle True" "Settle True \<notin> set es"
    using Cons.prems(2) by auto
  moreover from this(1) have "\<not> isPlaying (step p e s)"
    using Cons.prems(1) by (simp only: step_not_playing not_False_eq_True)
  ultimately have "\<not> isPlaying (run p (step p e s) es)"
    using Cons.IH by blast
  then show ?case by simp
qed

lemma first_attempt_Click: "first_attempt p (step p Click init_player)"
  by (simp add: first_attempt_def init_player_def togglePlay_def)

lemma first_attempt_step:
  "first_attempt p s \<Longrightarrow> element_event e \<Longrightarrow> first_attempt p (step p e s)"
  by (cases e) (auto simp: first_attempt_def on_audio_def)

lemma first_attempt_run:
  "first_attempt p s \<Longrightarrow> list_all element_event es \<Longrightarrow> first_attempt p (run p s es)"
  by (induction es arbitrary: s) (simp_all add: first_attempt_step)

lemma first_attempt_rejected:
  "first_attempt p s \<Longrightarrow> failed_attempt p (step p (Settle False) s)"
  by (simp add: first_attempt_def failed_attempt_def settle_def)

lemma failed_attempt_step:
  "failed_attempt p s \<Longrightarrow> element_event e \<Longrightarrow> failed_attempt p (step p e s)"
  by (cases e) (auto simp: failed_attempt_def on_audio_def)

lemma failed_attempt_run:
  "failed_attempt p s \<Longrightarrow> list_all element_event es \<Longrightarrow> failed_attempt p (run p s es)"
  by (induction es arbitrary: s) (simp_all add: failed_attempt_step)

lemma failed_attempt_reached:
  assumes "list_all element_event es1" "list_all element_event es2"
  shows "failed_attempt p (run p init_player (Click # es1 @ Settle False # es2))"
proof -
  have "first_attempt p (run p (step p Click init_player) es1)"
    using first_attempt_run [OF first_attempt_Click assms(1)] .
  then have "failed_attempt p (step p (Settle False) (run p (step p Click init_player) es1))"
    by (rule first_attempt_rejected)
  then have "failed_attempt p
      (run p (step p (Settle False) (run p (step p Click init_player) es1)) es2)"
    using assms(2) by (rule failed_attempt_run)
  then show ?thesis by (simp add: run_append)
qed

text \<open>
  Claim C3, as stated, fails: after a first play request that ended in a load error
  and a rejected \<open>play()\<close>, the next play request constructs nothing. The card has
  as many \<open>Audio\<close> objects after it as before, one, and \<open>audio\<close> is the same cell
  value.
\<close>

theorem retry_creates_no_audio_counterexample:
  "length (audios (run ''u'' init_player [Click, LoadError, Settle False, Click])) =
   length (audios (run ''u'' init_player [Click, LoadError, Settle False])) \<and>
   length (audios (run ''u'' init_player [Click, LoadError, Settle False, Click])) = 1 \<and>
   audio (run ''u'' init_player [Click, LoadError, Settle False, Click]) =
   audio (run ''u'' init_player [Click, LoadError, Settle False])"
  by (simp add: init_player_def togglePlay_def settle_def on_audio_def)

text \<open>
  Claim C3, amended. For every card whose first play request fails (the element
  raises any of its load events, among them \<open>error\<close>, and the \<open>play()\<close> promise is
  rejected), the card is left neither loading nor playing with its one \<open>Audio\<close>
  object kept in \<open>audio\<close>, and a subsequent play request creates no new object: it
  calls \<open>play()\<close> a second time on that same object, the one constructed from the
  preview URL, and awaits it in the resume branch.
\<close>

theorem retry_reuses_audio:
  assumes "list_all element_event es1" "list_all element_event es2"
  shows "let s = run p init_player (Click # es1 @ Settle False # es2);
             s' = step p Click s
         in \<not> isLoading s \<and> \<not> isPlaying s \<and>
            audio s = Some 0 \<and> length (audios s) = 1 \<and>
            audio s' = Some 0 \<and> length (audios s') = 1 \<and>
            src (audios s' ! 0) = p \<and> play_calls (audios s' ! 0) = 2 \<and>
            pending s' = [AfterResume]"
  using failed_attempt_reached [OF assms, of p]
  by (simp add: Let_def failed_attempt_def togglePlay_def on_audio_def)

theorem retry_reuses_audio_witness:
  "list_all element_event [LoadError] \<and> list_all element_event [] \<and>
   audio (run ''u'' init_player [Click, LoadError, Settle False, Click]) = Some 0 \<and>
   length (audios (run ''u'' init_player [Click, LoadError, Settle False, Click])) = 1 \<and>
   play_calls (audios (run ''u'' init_player [Click, LoadError, Settle False, Click]) ! 0) = 2"
  using retry_reuses_audio [of "[LoadError]" "[]" "''u''"]
  by (simp add: Let_def init_player_def togglePlay_def settle_def on_audio_def)

subsection \<open>A rejected play request, first or later\<close>

text \<open>Once the element exists, nothing sets \<open>isLoading\<close> again.\<close>

lemma step_keeps_not_loading:
  assumes "audio s \<noteq> None" "\<not> isLoading s"
  shows "audio (step p e s) \<noteq> None \<and> \<not> isLoading (step p e s)"
proof -
  obtain h where h: "audio s = Some h" using assms(1) by auto
  show ?thesis
  proof (cases e)
    case Click
    then show ?thesis using h assms(2) by (simp add: togglePlay_def on_audio_def)
  next
    case (Settle ok)
    then show ?thesis using h assms(2)
      by (simp add: settle_def split: list.split cont.split)
  next
    case (SeekInput t)
    then show ?thesis using h assms(2) by (simp add: handleSeek_def on_audio_def Let_def)
  next
    case (HostTime t)
    then show ?thesis using h assms(2) by (simp add: on_audio_def)
  qed (use h assms(2) in simp_all)
qed

lemma run_keeps_not_loading:
  "audio s \<noteq> None \<Longrightarrow> \<not> isLoading s \<Longrightarrow>
   audio (run p s es) \<noteq> None \<and> \<not> isLoading (run p s es)"
proof (induction es arbitrary: s)
  case Nil
  then show ?case by simp
next
  case (Cons e es)
  have "audio (step p e s) \<noteq> None \<and> \<not> isLoading (step p e s)"
    using Cons.prems by (rule step_keeps_not_loading)
  then show ?case using Cons.IH by simp
qed

lemma element_step_frame:
  "element_event e \<Longrightarrow>
   pending (step p e s) = pending s \<and> unhandled (step p e s) = unhandled s"
  by (cases e) (simp_all add: on_audio_def split: option.split)

lemma element_run_frame:
  "list_all element_event es \<Longrightarrow>
   pending (run p s es) = pending s \<and> unhandled (run p s es) = unhandled s"
  by (induction es arbitrary: s) (simp_all add: element_step_frame)

lemma resume_rejected_frame:
  assumes "idle_with_audio s" "list_all element_event es1" "list_all element_event es2"
  shows "pending (run p s (Click # es1 @ Settle False # es2)) = [] \<and>
         unhandled (run p s (Click # es1 @ Settle False # es2)) = unhandled s"
proof -
  define s1 where "s1 = step p Click s"
  define s2 where "s2 = run p s1 es1"
  define s3 where "s3 = step p (Settle False) s2"
  have 1: "pending s1 = [AfterResume] \<and> unhandled s1 = unhandled s"
    using assms(1) by (auto simp: s1_def idle_with_audio_def togglePlay_def on_audio_def)
  have 2: "pending s2 = [AfterResume] \<and> unhandled s2 = unhandled s"
    using element_run_frame [OF assms(2), of p s1] 1 by (simp add: s2_def)
  have 3: "pending s3 = [] \<and> unhandled s3 = unhandled s"
    using 2 by (simp add: s3_def settle_def)
  have "pending (run p s3 es2) = [] \<and> unhandled (run p s3 es2) = unhandled s"
    using element_run_frame [OF assms(3), of p s3] 3 by simp
  then show ?thesis by (simp add: run_append s1_def s2_def s3_def)
qed

text \<open>
  Claim C7, as stated, fails for a play request from the idle state a failed attempt
  leaves behind: the card is idle (neither loading nor playing), and a second play
  request does not make it loading. \<open>togglePlay\<close> sets \<open>isLoading\<close> only where it
  constructs the element.
\<close>

theorem retry_skips_loading_counterexample:
  "\<not> isLoading (run ''u'' init_player [Click, LoadError, Settle False]) \<and>
   \<not> isPlaying (run ''u'' init_player [Click, LoadError, Settle False]) \<and>
   \<not> isLoading (run ''u'' init_player [Click, LoadError, Settle False, Click])"
  by (simp add: init_player_def togglePlay_def settle_def on_audio_def)

text \<open>
  Claim C7, amended. Take a play request whose \<open>play()\<close> promise is rejected, because
  the preview fails to load or because the host refuses playback, with any load events
  of the element before and after the rejection. If it is the first request of a card
  (initial state, no audio element yet), the card is loading right after the request,
  in no state along the way is it playing, and once the promise is rejected it is
  neither loading nor playing and no error has left a handler uncaught. If it is a
  request from the idle state with the element in place (after a failed attempt or
  after the clip has ended), the card never enters loading: in every state along the
  way it is neither loading nor playing, it ends idle as it began, and no error leaves
  a handler uncaught.
\<close>

theorem failed_play_first_and_retry:
  assumes "list_all element_event es1" "list_all element_event es2"
  shows "isLoading (step p Click init_player) \<and> \<not> isPlaying (step p Click init_player) \<and>
         (\<forall>n. \<not> isPlaying (run p init_player (take n (Click # es1 @ Settle False # es2)))) \<and>
         \<not> isLoading (run p init_player (Click # es1 @ Settle False # es2)) \<and>
         \<not> isPlaying (run p init_player (Click # es1 @ Settle False # es2)) \<and>
         unhandled (run p init_player (Click # es1 @ Settle False # es2)) = [] \<and>
         (idle_with_audio s \<longrightarrow>
            (\<forall>n. \<not> isPlaying (run p s (take n (Click # es1 @ Settle False # es2))) \<and>
                 \<not> isLoading (run p s (take n (Click # es1 @ Settle False # es2)))) \<and>
            idle_with_audio (run p s (Click # es1 @ Settle False # es2)) \<and>
            unhandled (run p s (Click # es1 @ Settle False # es2)) = unhandled s)"
proof -
  let ?tr = "Click # es1 @ Settle False # es2"
  have a: "isLoading (step p Click init_player) \<and> \<not> isPlaying (step p Click init_player)"
    by (simp add: init_player_def togglePlay_def)
  have no_all: "Settle True \<notin> set ?tr"
    using assms by (auto simp: list_all_iff)
  then have no: "Settle True \<notin> set (take n ?tr)" for n
    by (meson in_set_takeD)
  have b: "\<not> isPlaying (run p init_player (take n ?tr))" for n
    using no by (intro run_not_playing) (simp add: init_player_def)
  have c: "failed_attempt p (run p init_player ?tr)"
    using assms by (rule failed_attempt_reached)
  have first: "isLoading (step p Click init_player) \<and> \<not> isPlaying (step p Click init_player) \<and>
         (\<forall>n. \<not> isPlaying (run p init_player (take n ?tr))) \<and>
         \<not> isLoading (run p init_player ?tr) \<and> \<not> isPlaying (run p init_player ?tr) \<and>
         unhandled (run p init_player ?tr) = []"
    using a b c by (simp add: failed_attempt_def)
  have later: "(\<forall>n. \<not> isPlaying (run p s (take n ?tr)) \<and> \<not> isLoading (run p s (take n ?tr))) \<and>
      idle_with_audio (run p s ?tr) \<and> unhandled (run p s ?tr) = unhandled s"
    if idle: "idle_with_audio s"
  proof -
    have i: "audio s \<noteq> None" "\<not> isLoading s" "\<not> isPlaying s"
      using idle by (simp_all add: idle_with_audio_def)
    have p: "\<not> isPlaying (run p s es)" if "Settle True \<notin> set es" for es
      using i(3) that by (rule run_not_playing)
    have l: "audio (run p s es) \<noteq> None \<and> \<not> isLoading (run p s es)" for es
      using i(1,2) by (rule run_keeps_not_loading)
    have f: "pending (run p s ?tr) = [] \<and> unhandled (run p s ?tr) = unhandled s"
      using idle assms by (rule resume_rejected_frame)
    have "\<not> isPlaying (run p s ?tr)" using no_all by (rule p)
    then have "idle_with_audio (run p s ?tr)"
      using l [of ?tr] f by (simp add: idle_with_audio_def)
    moreover have "\<not> isPlaying (run p s (take n ?tr)) \<and> \<not> isLoading (run p s (take n ?tr))"
      for n using p [OF no] l by blast
    ultimately show ?thesis using f by blast
  qed
  show ?thesis using first later by blast
qed

theorem failed_play_first_and_retry_witness:
  "list_all element_event [LoadError] \<and> list_all element_event [] \<and>
   idle_with_audio (run ''u'' init_player [Click, LoadError, Settle False]) \<and>
   isLoading (run ''u'' init_player [Click]) \<and>
   \<not> isPlaying (run ''u'' init_player [Click, LoadError]) \<and>
   \<not> isLoading (run ''u'' init_player [Click, LoadError, Settle False]) \<and>
   \<not> isLoading (run ''u'' init_player [Click, LoadError, Settle False, Click]) \<and>
   idle_with_audio
     (run ''u'' init_player [Click, LoadError, Settle False, Click, LoadError, Settle False])"
proof -
  have e: "list_all element_event [LoadError] \<and> list_all element_event []" by simp
  have i: "idle_with_audio (run ''u'' init_player [Click, LoadError, Settle False])"
    by (simp add: idle_with_audio_def init_player_def togglePlay_def settle_def)
  have r: "run ''u'' (run ''u'' init_player [Click, LoadError, Settle False]) es =
           run ''u'' init_player ([Click, LoadError, Settle False] @ es)" for es
    by (simp only: run_append)
  have l: "isLoading (run ''u'' init_player [Click]) \<and>
           \<not> isPlaying (run ''u'' init_player [Click, LoadError]) \<and>
           \<not> isLoading (run ''u'' init_player [Click, LoadError, Settle False]) \<and>
           \<not> isLoading (run ''u'' init_player [Click, LoadError, Settle False, Click])"
    by (simp add: init_player_def togglePlay_def settle_def on_audio_def)
  have "idle_with_audio (run ''u'' (run ''u'' init_player [Click, LoadError, Settle False])
          (Click # [LoadError] @ Settle False # []))"
    using failed_play_first_and_retry [of "[LoadError]" "[]" "''u''"
        "run ''u'' init_player [Click, LoadError, Settle False]"] e i
    by blast
  then have "idle_with_audio
     (run ''u'' init_player [Click, LoadError, Settle False, Click, LoadError, Settle False])"
    by (simp only: r append_Cons append_Nil)
  then show ?thesis using e i l by blast
qed

subsection \<open>Playing again after the clip has ended\<close>

lemma map_update_same: "(map f xs)[h := f (xs ! h)] = map f xs"
  by (metis list_update_id map_update)

lemma settle_True_playing: "pending s \<noteq> [] \<Longrightarrow> isPlaying (settle True s)"
  by (cases "pending s") (simp_all add: settle_def)

text \<open>
  Claim C9. In any state in which the card has its audio element and is not loading
  (a clip that plays to its end has reported its metadata before), the \<open>ended\<close> event sets \<open>currentTime\<close> to 0 and leaves the element in place. A
  play request after it keeps \<open>audio\<close> pointing at that same element, constructs no
  new \<open>Audio\<close> object (the objects and their URLs are the ones from before), calls
  \<open>play()\<close> once more on the element, and when that promise resolves the card is
  playing.
\<close>

theorem ended_then_play_reuses_audio:
  assumes "audio s = Some h" "h < length (audios s)" "\<not> isLoading s"
  shows "let s1 = step p Ended s; s2 = step p Click s1
         in currentTime s1 = Fin 0 \<and> \<not> isPlaying s1 \<and>
            audio s1 = Some h \<and> audios s1 = audios s \<and>
            audio s2 = Some h \<and> length (audios s2) = length (audios s) \<and>
            map src (audios s2) = map src (audios s) \<and>
            play_calls (audios s2 ! h) = Suc (play_calls (audios s ! h)) \<and>
            isPlaying (step p (Settle True) s2)"
proof -
  define s1 where "s1 = step p Ended s"
  define s2 where "s2 = step p Click s1"
  have e: "s1 = s\<lparr>isPlaying := False, currentTime := Fin 0\<rparr>"
    using assms(1) by (simp add: s1_def)
  have c: "s2 = (on_audio h (\<lambda>a. a\<lparr>play_calls := Suc (play_calls a)\<rparr>) s1)
                  \<lparr>pending := pending s1 @ [AfterResume]\<rparr>"
    using assms(1,3) by (simp add: s2_def e togglePlay_def)
  have "pending s2 \<noteq> []" by (simp add: c)
  then have p: "isPlaying (step p (Settle True) s2)"
    by (simp add: settle_True_playing)
  have "currentTime s1 = Fin 0 \<and> \<not> isPlaying s1 \<and> audio s1 = Some h \<and> audios s1 = audios s"
    using assms(1) by (simp add: e)
  moreover have "audio s2 = Some h \<and> length (audios s2) = length (audios s) \<and>
      map src (audios s2) = map src (audios s) \<and>
      play_calls (audios s2 ! h) = Suc (play_calls (audios s ! h))"
    using assms(1,2) by (simp add: c e on_audio_def map_update map_update_same)
  ultimately show ?thesis using p by (simp add: Let_def s1_def s2_def)
qed

theorem ended_then_play_reuses_audio_witness:
  "audio (run ''u'' init_player [Click, LoadedMetadata (Fin 30), Settle True,
      HostTime (Fin 30), Tick]) = Some 0 \<and>
   \<not> isLoading (run ''u'' init_player [Click, LoadedMetadata (Fin 30), Settle True,
      HostTime (Fin 30), Tick]) \<and>
   currentTime (run ''u'' init_player [Click, LoadedMetadata (Fin 30), Settle True,
      HostTime (Fin 30), Tick]) = Fin 30 \<and>
   currentTime (run ''u'' init_player [Click, LoadedMetadata (Fin 30), Settle True,
      HostTime (Fin 30), Tick, Ended]) = Fin 0 \<and>
   audio (run ''u'' init_player [Click, LoadedMetadata (Fin 30), Settle True,
      HostTime (Fin 30), Tick, Ended, Click]) = Some 0 \<and>
   length (audios (run ''u'' init_player [Click, LoadedMetadata (Fin 30), Settle True,
      HostTime (Fin 30), Tick, Ended, Click])) = 1 \<and>
   isPlaying (run ''u'' init_player [Click, LoadedMetadata (Fin 30), Settle True,
      HostTime (Fin 30), Tick, Ended, Click, Settle True])"
  using ended_then_play_reuses_audio [of "run ''u'' init_player [Click,
      LoadedMetadata (Fin 30), Settle True, HostTime (Fin 30), Tick]" 0 "''u''"]
  by (simp add: Let_def init_player_def togglePlay_def on_audio_def settle_def)

end
